theory Spec2Isabelle
  imports Complex_Main
begin

section \<open>CinemaToday: the session state machine of the guessing page\<close>

text \<open>
  The page component \<open>HomePage\<close> keeps ten state cells and changes them in two asynchronous
  handlers, \<open>fetchGame\<close> and \<open>handleSubmitGuess\<close>; two memoised values, \<open>posterBlurAmount\<close>
  and \<open>clueProgressPercent\<close>, are computed from the cells. Each handler is embedded twice.
  First as a function from the state at the call to the state once the handler has
  settled, together with what it sent to the collaborator: this is the handler when
  nothing else happens between its call and its end. Then in two halves, the part before
  its \<open>await\<close> and the part after it, so that a run of the page can hold several handlers in
  flight and let them settle in any order, as the page does: the guess form is not disabled
  while a guess is being answered.

  The collaborator sends indices and counts as numbers; they are embedded as \<open>int\<close>, an
  \<open>int\<close> standing for the double of that value: a cell holds a number as the
  collaborator's JSON was parsed, so it holds no integer that is not a double. The two
  memoised values are computed in binary floating point, and \<open>posterBlurAmount\<close> keeps two
  decimals of what it computes: which hundredth it lands on depends on the binary rounding
  of each operation. Both are embedded in binary64 arithmetic, every operation rounded.
\<close>

subsection \<open>Collaborator payloads\<close>

record TodayGameResponse =
  game_date :: string
  movie_slug :: string
  total_clues :: int
  current_clue_index :: int
  current_clue_text :: string
  solved :: bool
  poster_url :: "string option"

record GuessResponse =
  correct :: bool
  finished :: bool
  next_clue_index :: int
  next_clue_text :: "string option"
  reveal_title :: "string option"
  reveal_poster_url :: "string option"
  message :: string

text \<open>
  What one \<open>fetch\<close> gives the handler. The failure covers a rejected request, a response
  whose \<open>ok\<close> flag is false and a body that does not parse: each of them throws inside the
  handler's \<open>try\<close>.
\<close>

datatype game_fetch = FetchFailed | FetchOk TodayGameResponse

datatype guess_fetch = GuessFailed | GuessOk GuessResponse

text \<open>The body of \<open>POST /guess\<close>: \<open>movie_slug\<close>, \<open>guess\<close>, \<open>current_clue_index\<close>.\<close>

datatype guess_request = GuessRequest string string int

subsection \<open>The state cells\<close>

record state =
  game :: "TodayGameResponse option"
  currentClueIndex :: int
  currentClueText :: "string option"
  isLoadingGame :: bool
  guess :: string
  statusMessage :: "string option"
  finished :: bool
  revealedTitle :: "string option"
  posterUrl :: "string option"
  previousClues :: "string list"

text \<open>The values of \<open>useState\<close> at the first render.\<close>

definition initialState :: state where
  "initialState =
     \<lparr>game = None, currentClueIndex = 0, currentClueText = None, isLoadingGame = False,
      guess = [], statusMessage = None, finished = False, revealedTitle = None,
      posterUrl = None, previousClues = []\<rparr>"

text \<open>
  A value of type \<open>string | null\<close> used as a condition is true when it is a string other
  than the empty one.
\<close>

fun truthy :: "string option \<Rightarrow> bool" where
  "truthy None = False"
| "truthy (Some t) = (t \<noteq> [])"

subsection \<open>Loading a game: \<open>fetchGame\<close>\<close>

text \<open>
  The argument \<open>options?: { requireDifferent?: boolean; excludeSlug?: string | null }\<close>:
  a field can be left out, and \<open>excludeSlug\<close> can also be \<open>null\<close>.
\<close>

datatype 'a optional = Absent | IsNull | Given 'a

record fetch_options =
  requireDifferent :: "bool optional"
  excludeSlug :: "string optional"

text \<open>\<open>options?.requireDifferent ?? false\<close> and \<open>options?.excludeSlug ?? null\<close>.\<close>

fun requireDifferent_of :: "fetch_options option \<Rightarrow> bool" where
  "requireDifferent_of None = False"
| "requireDifferent_of (Some opts) =
     (case requireDifferent opts of Given b \<Rightarrow> b | _ \<Rightarrow> False)"

fun excludeSlug_of :: "fetch_options option \<Rightarrow> string option" where
  "excludeSlug_of None = None"
| "excludeSlug_of (Some opts) =
     (case excludeSlug opts of Given t \<Rightarrow> Some t | _ \<Rightarrow> None)"

text \<open>
  How the \<open>while\<close> loop is left: with \<open>nextGame\<close> set, with \<open>nextGame\<close> still \<open>null\<close> once
  \<open>attempt\<close> has reached \<open>maxAttempts\<close>, or by the \<open>throw\<close>. The number is the count of
  fetches issued.
\<close>

datatype load_outcome = Accepted TodayGameResponse | NoneFound | Thrown

text \<open>
  The collaborator is a function from the position of a fetch within this load (from 0) to
  what that fetch gives. \<open>attempt\<close> grows by one exactly when a fetch was made and its game
  was turned down, so the fetch made at \<open>attempt\<close> is fetch number \<open>attempt\<close>.
\<close>

function fetchLoop ::
  "(nat \<Rightarrow> game_fetch) \<Rightarrow> bool \<Rightarrow> string option \<Rightarrow> nat \<Rightarrow> nat \<Rightarrow> load_outcome \<times> nat" where
  "fetchLoop server requireDifferent' excludeSlug' maxAttempts attempt =
     (if attempt < maxAttempts then
        (case server attempt of
           FetchFailed \<Rightarrow> (Thrown, attempt + 1)
         | FetchOk data \<Rightarrow>
             if \<not> requireDifferent' \<or> \<not> truthy excludeSlug'
                \<or> Some (movie_slug data) \<noteq> excludeSlug'
             then (Accepted data, attempt + 1)
             else fetchLoop server requireDifferent' excludeSlug' maxAttempts (attempt + 1))
      else (NoneFound, attempt))"
  by pat_completeness auto

termination
  by (relation "measure (\<lambda>(server, rd, ex, maxAttempts, attempt). maxAttempts - attempt)") auto

declare fetchLoop.simps [simp del]

definition msgNoDifferent :: string where
  "msgNoDifferent = ''Could not find a different movie right now. Try again.''"

definition msgNewMovieFailed :: string where
  "msgNewMovieFailed = ''Could not load a new movie. Please try again.''"

definition msgLoadFailed :: string where
  "msgLoadFailed = ''Could not load today's game.''"

definition msgGuessFailed :: string where
  "msgGuessFailed = ''Something went wrong when submitting your guess.''"

text \<open>The setters that run once \<open>nextGame\<close> is set.\<close>

definition applyGame :: "bool \<Rightarrow> TodayGameResponse \<Rightarrow> state \<Rightarrow> state" where
  "applyGame requireDifferent' nextGame s =
     (let s1 = s\<lparr>game := Some nextGame,
                  currentClueIndex := current_clue_index nextGame,
                  currentClueText := Some (current_clue_text nextGame),
                  posterUrl := poster_url nextGame,
                  previousClues := [],
                  guess := [],
                  finished := False,
                  revealedTitle := None\<rparr>
      in if requireDifferent' then s1\<lparr>statusMessage := None\<rparr> else s1)"

text \<open>
  The whole handler: the state when it has settled and the number of fetches it issued.
\<close>

definition fetchGame ::
  "fetch_options option \<Rightarrow> (nat \<Rightarrow> game_fetch) \<Rightarrow> state \<Rightarrow> state \<times> nat" where
  "fetchGame options server s =
     (let requireDifferent' = requireDifferent_of options;
          excludeSlug' = excludeSlug_of options;
          s1 = s\<lparr>isLoadingGame := True\<rparr>;
          s2 = (if \<not> requireDifferent' then s1\<lparr>statusMessage := None\<rparr> else s1);
          maxAttempts = (if requireDifferent' then 5 else 1);
          (outcome, fetches) = fetchLoop server requireDifferent' excludeSlug' maxAttempts 0;
          s3 = (case outcome of
                  NoneFound \<Rightarrow> s2\<lparr>statusMessage := Some msgNoDifferent\<rparr>
                | Accepted nextGame \<Rightarrow> applyGame requireDifferent' nextGame s2
                | Thrown \<Rightarrow>
                    s2\<lparr>statusMessage :=
                         Some (if requireDifferent' then msgNewMovieFailed else msgLoadFailed)\<rparr>)
      in (s3\<lparr>isLoadingGame := False\<rparr>, fetches))"

text \<open>
  The click handler of the "New movie" button:
  \<open>fetchGame({ requireDifferent: true, excludeSlug: game?.movie_slug ?? null })\<close>.
\<close>

definition newMovieOptions :: "state \<Rightarrow> fetch_options option" where
  "newMovieOptions s =
     Some \<lparr>requireDifferent = Given True,
           excludeSlug = (case game s of None \<Rightarrow> IsNull | Some g \<Rightarrow> Given (movie_slug g))\<rparr>"

subsection \<open>Submitting a guess: \<open>handleSubmitGuess\<close>\<close>

text \<open>
  The first argument is what the collaborator answers if it is asked. The result is the
  state when the handler has settled and the request it sent, \<open>None\<close> when the handler
  returned before its \<open>try\<close>.
\<close>

definition applyVerdict :: "GuessResponse \<Rightarrow> state \<Rightarrow> state" where
  "applyVerdict data s =
     (let s1 = s\<lparr>statusMessage := Some (message data)\<rparr>
      in if correct data \<or> GuessResponse.finished data then
           (let s2 = s1\<lparr>finished := True, revealedTitle := reveal_title data\<rparr>;
                s3 = (if truthy (reveal_poster_url data)
                      then s2\<lparr>posterUrl := reveal_poster_url data\<rparr> else s2)
            in if truthy (next_clue_text data)
               then s3\<lparr>currentClueText := next_clue_text data\<rparr> else s3)
         else
           s1\<lparr>previousClues :=
                 (case currentClueText s of
                    None \<Rightarrow> previousClues s
                  | Some t \<Rightarrow> if t \<noteq> [] then previousClues s @ [t] else previousClues s),
               currentClueIndex := next_clue_index data,
               currentClueText := next_clue_text data\<rparr>)"

definition handleSubmitGuess :: "guess_fetch \<Rightarrow> state \<Rightarrow> state \<times> guess_request option" where
  "handleSubmitGuess answer s =
     (case game s of
        None \<Rightarrow> (s, None)
      | Some g \<Rightarrow>
          if finished s then (s, None)
          else
            (let request = GuessRequest (movie_slug g) (guess s) (currentClueIndex s);
                 s1 = (case answer of
                         GuessFailed \<Rightarrow> s\<lparr>statusMessage := Some msgGuessFailed\<rparr>
                       | GuessOk data \<Rightarrow> applyVerdict data s)
             in (s1\<lparr>guess := []\<rparr>, Some request)))"

text \<open>
  The earlier page, \<open>src/frontend/src/app/page.tsx\<close>, has the cells \<open>game\<close>,
  \<open>currentClueIndex\<close>, \<open>currentClueText\<close>, \<open>guess\<close>, \<open>statusMessage\<close>, \<open>finished\<close> and
  \<open>revealedTitle\<close> only. Its handler is embedded on the same record; the cells it does not
  have are carried along unchanged.
\<close>

definition applyVerdict_page :: "GuessResponse \<Rightarrow> state \<Rightarrow> state" where
  "applyVerdict_page data s =
     (let s1 = s\<lparr>statusMessage := Some (message data)\<rparr>
      in if correct data \<or> GuessResponse.finished data then
           (let s2 = s1\<lparr>finished := True, revealedTitle := reveal_title data\<rparr>
            in if truthy (next_clue_text data)
               then s2\<lparr>currentClueText := next_clue_text data\<rparr> else s2)
         else
           s1\<lparr>currentClueIndex := next_clue_index data,
               currentClueText := next_clue_text data\<rparr>)"

definition handleSubmitGuess_page ::
  "guess_fetch \<Rightarrow> state \<Rightarrow> state \<times> guess_request option" where
  "handleSubmitGuess_page answer s =
     (case game s of
        None \<Rightarrow> (s, None)
      | Some g \<Rightarrow>
          if finished s then (s, None)
          else
            (let request = GuessRequest (movie_slug g) (guess s) (currentClueIndex s);
                 s1 = (case answer of
                         GuessFailed \<Rightarrow> s\<lparr>statusMessage := Some msgGuessFailed\<rparr>
                       | GuessOk data \<Rightarrow> applyVerdict_page data s)
             in (s1\<lparr>guess := []\<rparr>, Some request)))"

subsection \<open>Handlers in flight\<close>

text \<open>
  \<open>fetchGame\<close> in two halves. Before the first \<open>await\<close> it sets the loading flag and, for a
  plain load, clears the message. After the loop it applies the outcome to the cells as
  they are by then, and \<open>finally\<close> resets the loading flag. The handler reads no cell.
\<close>

definition beginLoad :: "fetch_options option \<Rightarrow> state \<Rightarrow> state" where
  "beginLoad options s =
     (let s1 = s\<lparr>isLoadingGame := True\<rparr>
      in if \<not> requireDifferent_of options then s1\<lparr>statusMessage := None\<rparr> else s1)"

definition endLoad :: "fetch_options option \<Rightarrow> (nat \<Rightarrow> game_fetch) \<Rightarrow> state \<Rightarrow> state" where
  "endLoad options server s =
     (let requireDifferent' = requireDifferent_of options;
          excludeSlug' = excludeSlug_of options;
          maxAttempts = (if requireDifferent' then 5 else 1);
          (outcome, fetches) = fetchLoop server requireDifferent' excludeSlug' maxAttempts 0;
          s3 = (case outcome of
                  NoneFound \<Rightarrow> s\<lparr>statusMessage := Some msgNoDifferent\<rparr>
                | Accepted nextGame \<Rightarrow> applyGame requireDifferent' nextGame s
                | Thrown \<Rightarrow>
                    s\<lparr>statusMessage :=
                        Some (if requireDifferent' then msgNewMovieFailed else msgLoadFailed)\<rparr>)
      in s3\<lparr>isLoadingGame := False\<rparr>)"

text \<open>A load with these options, answered by this collaborator, ends with a game accepted.\<close>

definition loadAccepts :: "fetch_options option \<Rightarrow> (nat \<Rightarrow> game_fetch) \<Rightarrow> bool" where
  "loadAccepts options server =
     (case fst (fetchLoop server (requireDifferent_of options) (excludeSlug_of options)
                  (if requireDifferent_of options then 5 else 1) 0) of
        Accepted g \<Rightarrow> True | _ \<Rightarrow> False)"

text \<open>
  \<open>handleSubmitGuess\<close> in two halves. Before the \<open>await\<close>: the guard, and the request built
  from the cells of the render the handler belongs to; the handler keeps that render's
  \<open>currentClueText\<close> for later. After the \<open>await\<close>: the setters, applied to the cells as
  they are by then. Only the update of \<open>previousClues\<close> reads a cell at that time (it is a
  function of the previous value); the clue text it appends is the one the handler kept.
  Nothing after the \<open>await\<close> looks at \<open>finished\<close> or \<open>game\<close> again.
\<close>

definition submitGuess :: "state \<Rightarrow> (guess_request \<times> string option) option" where
  "submitGuess s =
     (case game s of
        None \<Rightarrow> None
      | Some g \<Rightarrow>
          if finished s then None
          else Some (GuessRequest (movie_slug g) (guess s) (currentClueIndex s),
                     currentClueText s))"

definition landVerdict :: "string option \<Rightarrow> GuessResponse \<Rightarrow> state \<Rightarrow> state" where
  "landVerdict keptClueText data s =
     (let s1 = s\<lparr>statusMessage := Some (message data)\<rparr>
      in if correct data \<or> GuessResponse.finished data then
           (let s2 = s1\<lparr>finished := True, revealedTitle := reveal_title data\<rparr>;
                s3 = (if truthy (reveal_poster_url data)
                      then s2\<lparr>posterUrl := reveal_poster_url data\<rparr> else s2)
            in if truthy (next_clue_text data)
               then s3\<lparr>currentClueText := next_clue_text data\<rparr> else s3)
         else
           s1\<lparr>previousClues :=
                 (case keptClueText of
                    None \<Rightarrow> previousClues s
                  | Some t \<Rightarrow> if t \<noteq> [] then previousClues s @ [t] else previousClues s),
               currentClueIndex := next_clue_index data,
               currentClueText := next_clue_text data\<rparr>)"

definition settleGuess :: "string option \<Rightarrow> guess_fetch \<Rightarrow> state \<Rightarrow> state" where
  "settleGuess keptClueText answer s =
     (let s1 = (case answer of
                  GuessFailed \<Rightarrow> s\<lparr>statusMessage := Some msgGuessFailed\<rparr>
                | GuessOk data \<Rightarrow> landVerdict keptClueText data s)
      in s1\<lparr>guess := []\<rparr>)"

subsection \<open>Runs of the page\<close>

text \<open>
  The page during a run: its cells and the handlers that are suspended at their \<open>await\<close>,
  oldest first. A suspended guess holds the request it sent and the clue text it kept; a
  suspended load holds its options.
\<close>

datatype pending =
    PendingGuess guess_request "string option"
  | PendingLoad "fetch_options option"

record page_state =
  cells :: state
  inFlight :: "pending list"

text \<open>
  What can happen: the visitor types into the guess field (\<open>setGuess\<close> from \<open>onChange\<close>);
  the form is submitted; a load is started (on mount, or by "New movie"); the handler at
  some position of the list settles with what the collaborator gave it. An event that names
  a position where no handler of its kind is suspended does nothing.
\<close>

datatype event =
    TypeGuess string
  | SubmitGuess
  | StartLoad "fetch_options option"
  | GuessSettles nat guess_fetch
  | LoadSettles nat "nat \<Rightarrow> game_fetch"

definition without :: "nat \<Rightarrow> 'a list \<Rightarrow> 'a list" where
  "without n xs = take n xs @ drop (Suc n) xs"

fun step :: "event \<Rightarrow> page_state \<Rightarrow> page_state" where
  "step (TypeGuess t) p = p\<lparr>cells := (cells p)\<lparr>guess := t\<rparr>\<rparr>"
| "step SubmitGuess p =
     (case submitGuess (cells p) of
        None \<Rightarrow> p
      | Some (request, keptClueText) \<Rightarrow>
          p\<lparr>inFlight := inFlight p @ [PendingGuess request keptClueText]\<rparr>)"
| "step (StartLoad options) p =
     p\<lparr>cells := beginLoad options (cells p), inFlight := inFlight p @ [PendingLoad options]\<rparr>"
| "step (GuessSettles n answer) p =
     (if n < length (inFlight p) then
        (case inFlight p ! n of
           PendingGuess request keptClueText \<Rightarrow>
             \<lparr>cells = settleGuess keptClueText answer (cells p),
              inFlight = without n (inFlight p)\<rparr>
         | PendingLoad options \<Rightarrow> p)
      else p)"
| "step (LoadSettles n server) p =
     (if n < length (inFlight p) then
        (case inFlight p ! n of
           PendingLoad options \<Rightarrow>
             \<lparr>cells = endLoad options server (cells p), inFlight = without n (inFlight p)\<rparr>
         | PendingGuess request keptClueText \<Rightarrow> p)
      else p)"

fun run :: "event list \<Rightarrow> page_state \<Rightarrow> page_state" where
  "run [] p = p"
| "run (e # es) p = run es (step e p)"



fun replacesSession :: "page_state \<Rightarrow> event \<Rightarrow> bool" where
  "replacesSession p (LoadSettles n server) =
     (if n < length (inFlight p) then
        (case inFlight p ! n of
           PendingLoad options \<Rightarrow> loadAccepts options server
         | PendingGuess request keptClueText \<Rightarrow> False)
      else False)"
| "replacesSession p e = False"


text \<open>
  Guesses one at a time: each is submitted and settles, with the given answer, before the
  next is submitted. \<open>submitAll\<close> is the same run written with the whole handler.
\<close>

definition oneByOne :: "guess_fetch list \<Rightarrow> event list" where
  "oneByOne answers = concat (map (\<lambda>answer. [SubmitGuess, GuessSettles 0 answer]) answers)"

fun submitAll :: "guess_fetch list \<Rightarrow> state \<Rightarrow> state" where
  "submitAll [] s = s"
| "submitAll (answer # answers) s = submitAll answers (fst (handleSubmitGuess answer s))"

text \<open>
  A verdict is advancing when it has neither \<open>correct\<close> nor \<open>finished\<close>.
  \<open>stepsByOne i answers\<close> says of the collaborator's answers to guesses made one at a time
  from clue \<open>i\<close> on: every advancing verdict, up to the first verdict that ends the game,
  names the next index and carries a non-empty clue text.
\<close>

definition advancing :: "GuessResponse \<Rightarrow> bool" where
  "advancing v = (\<not> (correct v \<or> GuessResponse.finished v))"

fun stepsByOne :: "int \<Rightarrow> guess_fetch list \<Rightarrow> bool" where
  "stepsByOne i [] = True"
| "stepsByOne i (GuessFailed # answers) = stepsByOne i answers"
| "stepsByOne i (GuessOk v # answers) =
     (if correct v \<or> GuessResponse.finished v then True
      else next_clue_index v = i + 1 \<and> truthy (next_clue_text v)
           \<and> stepsByOne (i + 1) answers)"

subsection \<open>Binary64 arithmetic\<close>


text \<open>
  Rounding to nearest, ties to even. A positive \<open>x\<close> lies in the binade
  \<open>2 ^ e \<le> x < 2 ^ (e + 1)\<close> with \<open>e = exponent x\<close>. The doubles of a binade are the
  multiples of \<open>2 ^ (e - 52)\<close>; below \<open>2 ^ -1022\<close> they are the multiples of \<open>2 ^ -1074\<close>.
  \<open>fl x\<close> is the nearest such multiple, the even one of two equally near. It is the
  double the machine gives for an exact result \<open>x\<close> unless its size reaches \<open>2 ^ 1024\<close>,
  where the machine gives an infinity.
\<close>

definition exponent :: "real \<Rightarrow> int" where
  "exponent x = (if 0 < x then \<lfloor>log 2 x\<rfloor> else 0)"




subsection \<open>The derived values\<close>




subsection \<open>Example sessions\<close>

text \<open>
  Concrete payloads and states on which the theorems below are evaluated. \<open>gameX\<close> is a
  first clue of five for the film \<open>x\<close>; \<open>gameBlank\<close> is the same game with an empty first
  clue; \<open>gameA\<close> and \<open>gameB\<close> are two other films.
\<close>

definition gameX :: TodayGameResponse where
  "gameX = \<lparr>game_date = ''2025-01-01'', movie_slug = ''x'', total_clues = 5,
            current_clue_index = 0, current_clue_text = ''C1'', solved = False,
            poster_url = Some ''x.jpg''\<rparr>"

definition gameBlank :: TodayGameResponse where
  "gameBlank = gameX\<lparr>current_clue_text := []\<rparr>"

definition gameA :: TodayGameResponse where
  "gameA = gameX\<lparr>movie_slug := ''A'', poster_url := Some ''a.jpg''\<rparr>"

definition gameB :: TodayGameResponse where
  "gameB = gameX\<lparr>movie_slug := ''B'', poster_url := None\<rparr>"

definition verdictNext :: GuessResponse where
  "verdictNext = \<lparr>correct = False, GuessResponse.finished = False, next_clue_index = 1,
      next_clue_text = Some ''C2'', reveal_title = None, reveal_poster_url = None,
      message = ''Not quite.''\<rparr>"

definition verdictThird :: GuessResponse where
  "verdictThird = verdictNext\<lparr>next_clue_index := 2, next_clue_text := Some ''C3''\<rparr>"

definition verdictNoText :: GuessResponse where
  "verdictNoText = verdictNext\<lparr>next_clue_text := None\<rparr>"

definition verdictWin :: GuessResponse where
  "verdictWin = \<lparr>correct = True, GuessResponse.finished = True, next_clue_index = 1,
      next_clue_text = None, reveal_title = Some ''Movie X'', reveal_poster_url = None,
      message = ''Correct!''\<rparr>"

definition verdictOut :: GuessResponse where
  "verdictOut = \<lparr>correct = False, GuessResponse.finished = True, next_clue_index = 5,
      next_clue_text = Some ''It was Movie X.'', reveal_title = None,
      reveal_poster_url = Some ''x-full.jpg'', message = ''Out of clues.''\<rparr>"

text \<open>The page after its first load has accepted \<open>gameX\<close>, \<open>gameBlank\<close>, \<open>gameA\<close>.\<close>

definition sessionX :: state where
  "sessionX = fst (fetchGame None (\<lambda>n. FetchOk gameX) initialState)"

definition sessionBlank :: state where
  "sessionBlank = fst (fetchGame None (\<lambda>n. FetchOk gameBlank) initialState)"

definition sessionA :: state where
  "sessionA = fst (fetchGame None (\<lambda>n. FetchOk gameA) initialState)"


text \<open>
  Collaborators for the "New movie" load: one that always has film \<open>A\<close>, one that has \<open>A\<close>
  twice and then \<open>B\<close>, one whose first fetch fails and whose later fetches have \<open>B\<close>.
\<close>

definition alwaysA :: "nat \<Rightarrow> game_fetch" where
  "alwaysA n = FetchOk gameA"

definition twiceAThenB :: "nat \<Rightarrow> game_fetch" where
  "twiceAThenB n = (if n < 2 then FetchOk gameA else FetchOk gameB)"

definition failThenB :: "nat \<Rightarrow> game_fetch" where
  "failThenB n = (if n = 0 then FetchFailed else FetchOk gameB)"

text \<open>A game whose slug is the empty string, and the page after loading it.\<close>

definition gameNoSlug :: TodayGameResponse where
  "gameNoSlug = gameX\<lparr>movie_slug := []\<rparr>"

definition sessionNoSlug :: state where
  "sessionNoSlug = fst (fetchGame None (\<lambda>n. FetchOk gameNoSlug) initialState)"

text \<open>A game of eight clues that is loaded at its second clue, and the page after loading it.\<close>

definition gameEight :: TodayGameResponse where
  "gameEight = gameX\<lparr>total_clues := 8, current_clue_index := 1, current_clue_text := ''C2''\<rparr>"

definition sessionEight :: state where
  "sessionEight = fst (fetchGame None (\<lambda>n. FetchOk gameEight) initialState)"





text \<open>The page with \<open>sessionX\<close> in its cells and nothing in flight.\<close>

definition pageX :: page_state where
  "pageX = \<lparr>cells = sessionX, inFlight = []\<rparr>"

section \<open>Properties\<close>

subsection \<open>Evaluating the examples\<close>

lemma fetchLoop_unfold:
  "fetchLoop server rd ex m a =
     (if a < m then
        (case server a of
           FetchFailed \<Rightarrow> (Thrown, a + 1)
         | FetchOk data \<Rightarrow>
             if \<not> rd \<or> \<not> truthy ex \<or> Some (movie_slug data) \<noteq> ex
             then (Accepted data, a + 1)
             else fetchLoop server rd ex m (a + 1))
      else (NoneFound, a))"
  by (rule fetchLoop.simps)

text \<open>A load that excludes nothing is decided by its first fetch.\<close>

lemma fetchLoop_first:
  assumes "\<not> rd \<or> \<not> truthy ex" and "0 < m"
  shows "fetchLoop server rd ex m 0 =
     (case server 0 of FetchFailed \<Rightarrow> (Thrown, 1) | FetchOk d \<Rightarrow> (Accepted d, 1))"
  using assms by (subst fetchLoop.simps) (auto split: game_fetch.splits)

text \<open>The handler in terms of the way its loop was left.\<close>

lemma fetchGame_unfold:
  "fetchGame options server s =
     (case fetchLoop server (requireDifferent_of options) (excludeSlug_of options)
             (if requireDifferent_of options then 5 else 1) 0 of
        (Accepted d, n) \<Rightarrow>
          (s\<lparr>game := Some d, currentClueIndex := current_clue_index d,
              currentClueText := Some (current_clue_text d), posterUrl := poster_url d,
              previousClues := [], guess := [], finished := False, revealedTitle := None,
              statusMessage := None, isLoadingGame := False\<rparr>, n)
      | (NoneFound, n) \<Rightarrow> (s\<lparr>statusMessage := Some msgNoDifferent, isLoadingGame := False\<rparr>, n)
      | (Thrown, n) \<Rightarrow>
          (s\<lparr>statusMessage :=
                Some (if requireDifferent_of options then msgNewMovieFailed else msgLoadFailed),
              isLoadingGame := False\<rparr>, n))"
  by (cases "requireDifferent_of options")
     (simp_all add: fetchGame_def applyGame_def Let_def split: prod.splits load_outcome.splits)

lemma fetchGame_first:
  assumes "\<not> requireDifferent_of options \<or> \<not> truthy (excludeSlug_of options)"
  shows "fetchGame options server s =
     (case server 0 of
        FetchFailed \<Rightarrow>
          (s\<lparr>statusMessage :=
                Some (if requireDifferent_of options then msgNewMovieFailed else msgLoadFailed),
              isLoadingGame := False\<rparr>, 1)
      | FetchOk d \<Rightarrow>
          (s\<lparr>game := Some d, currentClueIndex := current_clue_index d,
              currentClueText := Some (current_clue_text d), posterUrl := poster_url d,
              previousClues := [], guess := [], finished := False, revealedTitle := None,
              statusMessage := None, isLoadingGame := False\<rparr>, 1))"
proof -
  have "fetchLoop server (requireDifferent_of options) (excludeSlug_of options)
          (if requireDifferent_of options then 5 else 1) 0 =
        (case server 0 of FetchFailed \<Rightarrow> (Thrown, 1) | FetchOk d \<Rightarrow> (Accepted d, 1))"
    using assms by (intro fetchLoop_first) auto
  then show ?thesis
    by (simp add: fetchGame_unfold split: game_fetch.splits)
qed

lemma sessionX_eq:
  "sessionX = \<lparr>game = Some gameX, currentClueIndex = 0, currentClueText = Some ''C1'',
      isLoadingGame = False, guess = [], statusMessage = None, finished = False,
      revealedTitle = None, posterUrl = Some ''x.jpg'', previousClues = []\<rparr>"
  by (simp add: sessionX_def fetchGame_first initialState_def gameX_def)

lemma sessionBlank_eq:
  "sessionBlank = \<lparr>game = Some gameBlank, currentClueIndex = 0, currentClueText = Some [],
      isLoadingGame = False, guess = [], statusMessage = None, finished = False,
      revealedTitle = None, posterUrl = Some ''x.jpg'', previousClues = []\<rparr>"
  by (simp add: sessionBlank_def fetchGame_first initialState_def gameBlank_def gameX_def)

lemma sessionA_eq:
  "sessionA = \<lparr>game = Some gameA, currentClueIndex = 0, currentClueText = Some ''C1'',
      isLoadingGame = False, guess = [], statusMessage = None, finished = False,
      revealedTitle = None, posterUrl = Some ''a.jpg'', previousClues = []\<rparr>"
  by (simp add: sessionA_def fetchGame_first initialState_def gameA_def gameX_def)


lemma sessionNoSlug_eq:
  "sessionNoSlug = \<lparr>game = Some gameNoSlug, currentClueIndex = 0,
      currentClueText = Some ''C1'', isLoadingGame = False, guess = [], statusMessage = None,
      finished = False, revealedTitle = None, posterUrl = Some ''x.jpg'', previousClues = []\<rparr>"
  by (simp add: sessionNoSlug_def fetchGame_first initialState_def gameNoSlug_def gameX_def)

subsection \<open>The retry loop\<close>

text \<open>
  The loop never issues more than \<open>maxAttempts\<close> fetches. With an exclusion in force it
  passes over every game that has the excluded slug and is decided by the first fetch that
  fails or has another slug.
\<close>

lemma fetchLoop_bound:
  "a \<le> m \<Longrightarrow> snd (fetchLoop server rd ex m a) \<le> m"
proof (induction server rd ex m a rule: fetchLoop.induct)
  case (1 server rd ex m a)
  then show ?case
    by (subst fetchLoop.simps) (auto split: game_fetch.splits)
qed

lemma fetchLoop_skip:
  assumes "e \<noteq> []" and "a \<le> k" and "k \<le> m"
    and "\<forall>j. a \<le> j \<and> j < k \<longrightarrow> (\<exists>d'. server j = FetchOk d' \<and> movie_slug d' = e)"
  shows "fetchLoop server True (Some e) m a = fetchLoop server True (Some e) m k"
  using assms(2-4)
proof (induction k rule: dec_induct)
  case base
  show ?case by simp
next
  case (step n)
  from step.prems step.hyps obtain d' where d': "server n = FetchOk d'" "movie_slug d' = e"
    by auto
  have "fetchLoop server True (Some e) m a = fetchLoop server True (Some e) m n"
    using step by simp
  also have "\<dots> = fetchLoop server True (Some e) m (Suc n)"
    using d' step.prems(1) assms(1) by (simp add: fetchLoop_unfold [of server True "Some e" m n])
  finally show ?case .
qed

lemma fetchLoop_accept:
  assumes "e \<noteq> []" and "k < m"
    and "\<forall>j<k. \<exists>d'. server j = FetchOk d' \<and> movie_slug d' = e"
    and "server k = FetchOk d" and "movie_slug d \<noteq> e"
  shows "fetchLoop server True (Some e) m 0 = (Accepted d, k + 1)"
proof -
  have "fetchLoop server True (Some e) m 0 = fetchLoop server True (Some e) m k"
    using assms(1-3) by (intro fetchLoop_skip) auto
  also have "\<dots> = (Accepted d, k + 1)"
    using assms(2,4,5) by (simp add: fetchLoop_unfold [of server True "Some e" m k])
  finally show ?thesis .
qed

lemma fetchLoop_throw:
  assumes "e \<noteq> []" and "k < m"
    and "\<forall>j<k. \<exists>d'. server j = FetchOk d' \<and> movie_slug d' = e"
    and "server k = FetchFailed"
  shows "fetchLoop server True (Some e) m 0 = (Thrown, k + 1)"
proof -
  have "fetchLoop server True (Some e) m 0 = fetchLoop server True (Some e) m k"
    using assms(1-3) by (intro fetchLoop_skip) auto
  also have "\<dots> = (Thrown, k + 1)"
    using assms(2,4) by (simp add: fetchLoop_unfold [of server True "Some e" m k])
  finally show ?thesis .
qed

lemma fetchLoop_exhaust:
  assumes "e \<noteq> []"
    and "\<forall>j<m. \<exists>d'. server j = FetchOk d' \<and> movie_slug d' = e"
  shows "fetchLoop server True (Some e) m 0 = (NoneFound, m)"
proof -
  have "fetchLoop server True (Some e) m 0 = fetchLoop server True (Some e) m m"
    using assms by (intro fetchLoop_skip) auto
  also have "\<dots> = (NoneFound, m)"
    by (simp add: fetchLoop_unfold [of server True "Some e" m m])
  finally show ?thesis .
qed

lemma fetchGame_fetches:
  "snd (fetchGame options server s) =
     snd (fetchLoop server (requireDifferent_of options) (excludeSlug_of options)
            (if requireDifferent_of options then 5 else 1) 0)"
  by (simp add: fetchGame_unfold split: prod.splits load_outcome.splits)

lemma newMovieOptions_sessionA:
  "requireDifferent_of (newMovieOptions sessionA)
   \<and> excludeSlug_of (newMovieOptions sessionA) = Some ''A''"
  by (simp add: newMovieOptions_def sessionA_eq gameA_def gameX_def)

lemma failThenB_loop: "fetchLoop failThenB True (Some ''A'') 5 0 = (Thrown, 1)"
  by (subst fetchLoop.simps) (simp add: failThenB_def)

lemma newMovie_failThenB:
  "fetchGame (newMovieOptions sessionA) failThenB sessionA =
     (sessionA\<lparr>statusMessage := Some msgNewMovieFailed\<rparr>, 1)"
  using newMovieOptions_sessionA
  by (simp add: fetchGame_unfold failThenB_loop) (simp add: sessionA_eq)

subsection \<open>Loads that leave the session\<close>

lemma failThenB_loop_any: "fetchLoop failThenB rd ex 5 0 = (Thrown, 1)"
  by (subst fetchLoop.simps) (simp add: failThenB_def)

lemma requireDifferent_newMovie: "requireDifferent_of (newMovieOptions s)"
  by (simp add: newMovieOptions_def)

lemma fetchGame_not_accepted:
  assumes "\<not> loadAccepts options server"
  shows "\<exists>m. m \<in> {msgNoDifferent, msgNewMovieFailed, msgLoadFailed}
     \<and> fst (fetchGame options server s) = s\<lparr>statusMessage := Some m, isLoadingGame := False\<rparr>"
  using assms unfolding loadAccepts_def
  by (cases "fetchLoop server (requireDifferent_of options) (excludeSlug_of options)
               (if requireDifferent_of options then 5 else 1) 0")
     (auto simp add: fetchGame_unfold split: load_outcome.splits)

lemma handleSubmitGuess_finished:
  "finished s \<Longrightarrow> handleSubmitGuess answer s = (s, None)"
  by (simp add: handleSubmitGuess_def split: option.splits)


lemma sessionEight_eq:
  "sessionEight = \<lparr>game = Some gameEight, currentClueIndex = 1,
      currentClueText = Some ''C2'', isLoadingGame = False, guess = [], statusMessage = None,
      finished = False, revealedTitle = None, posterUrl = Some ''x.jpg'', previousClues = []\<rparr>"
  by (simp add: sessionEight_def fetchGame_first initialState_def gameEight_def gameX_def)

lemma last_Cons_nth: "last (x # ys) = (x # ys) ! length ys"
  by (induction ys arbitrary: x) simp_all



lemma failThenB_not_accepted:
  "\<not> loadAccepts (newMovieOptions sessionA) failThenB"
  by (simp add: loadAccepts_def failThenB_loop_any requireDifferent_newMovie)

subsection \<open>The two halves of a handler\<close>

text \<open>
  With nothing in between, the two halves of a handler make the whole handler.
\<close>

lemma fetchGame_split:
  "fst (fetchGame options server s) = endLoad options server (beginLoad options s)"
  by (simp add: fetchGame_def endLoad_def beginLoad_def Let_def split: prod.splits)

lemma applyVerdict_landVerdict:
  "applyVerdict data s = landVerdict (currentClueText s) data s"
  by (simp add: applyVerdict_def landVerdict_def)

lemma handleSubmitGuess_split:
  "handleSubmitGuess answer s =
     (case submitGuess s of
        None \<Rightarrow> (s, None)
      | Some (request, keptClueText) \<Rightarrow> (settleGuess keptClueText answer s, Some request))"
  by (simp add: handleSubmitGuess_def submitGuess_def settleGuess_def applyVerdict_landVerdict
      Let_def split: option.splits guess_fetch.splits)



lemma endLoad_accepted:
  assumes "loadAccepts options server"
  shows "\<exists>d. game (endLoad options server s) = Some d
     \<and> currentClueIndex (endLoad options server s) = current_clue_index d
     \<and> currentClueText (endLoad options server s) = Some (current_clue_text d)
     \<and> previousClues (endLoad options server s) = []
     \<and> \<not> finished (endLoad options server s)"
  using assms unfolding loadAccepts_def
  by (cases "fetchLoop server (requireDifferent_of options) (excludeSlug_of options)
               (if requireDifferent_of options then 5 else 1) 0")
     (auto simp add: endLoad_def applyGame_def Let_def split: load_outcome.splits)


subsection \<open>Runs on a finished session\<close>






subsection \<open>Guesses one at a time\<close>

text \<open>
  Guesses made one at a time are a run of the whole handler. A run of advancing verdicts
  on a loaded, unfinished session appends the non-empty clue texts that were current before
  each submission, in order.
\<close>

lemma submitAll_finished:
  "finished s \<Longrightarrow> submitAll answers s = s"
  by (induction answers) (simp_all add: handleSubmitGuess_finished)

lemma history_invariant:
  assumes "game s \<noteq> None"
    and "int (length (previousClues s)) = currentClueIndex s"
    and "finished s \<or> truthy (currentClueText s)"
    and "finished s \<or> stepsByOne (currentClueIndex s) answers"
  shows "int (length (previousClues (submitAll answers s)))
       = currentClueIndex (submitAll answers s)"
  using assms
proof (induction answers arbitrary: s)
  case Nil
  then show ?case by simp
next
  case (Cons a answers)
  show ?case
  proof (cases "finished s")
    case True
    then show ?thesis
      using Cons.prems(2) submitAll_finished [of s "a # answers"] by simp
  next
    case False
    from Cons.prems(1) obtain g where g: "game s = Some g" by auto
    from False Cons.prems(3) obtain t where t: "currentClueText s = Some t" "t \<noteq> []"
      by (cases "currentClueText s") auto
    let ?s' = "fst (handleSubmitGuess a s)"
    have "game ?s' \<noteq> None
        \<and> int (length (previousClues ?s')) = currentClueIndex ?s'
        \<and> (finished ?s' \<or> truthy (currentClueText ?s'))
        \<and> (finished ?s' \<or> stepsByOne (currentClueIndex ?s') answers)"
    proof (cases a)
      case GuessFailed
      with False g Cons.prems show ?thesis
        by (simp add: handleSubmitGuess_def)
    next
      case (GuessOk v)
      with False g t Cons.prems show ?thesis
        by (simp add: handleSubmitGuess_def applyVerdict_def Let_def)
    qed
    with Cons.IH [of ?s'] show ?thesis by simp
  qed
qed

lemma advancing_run:
  assumes "game s \<noteq> None" and "\<not> finished s" and "\<forall>v\<in>set vs. advancing v"
  shows "previousClues (submitAll (map GuessOk vs) s)
       = previousClues s
           @ map the (filter truthy (butlast (currentClueText s # map next_clue_text vs)))
     \<and> currentClueText (submitAll (map GuessOk vs) s) = last (currentClueText s # map next_clue_text vs)
     \<and> game (submitAll (map GuessOk vs) s) = game s \<and> \<not> finished (submitAll (map GuessOk vs) s)"
  using assms
proof (induction vs arbitrary: s)
  case Nil
  then show ?case by simp
next
  case (Cons v vs)
  from Cons.prems(1) obtain g where g: "game s = Some g" by auto
  from Cons.prems(3) have v: "\<not> correct v" "\<not> GuessResponse.finished v"
    and vs: "\<forall>v\<in>set vs. advancing v"
    by (simp_all add: advancing_def)
  let ?s' = "fst (handleSubmitGuess (GuessOk v) s)"
  have s': "game ?s' = game s" "\<not> finished ?s'" "currentClueText ?s' = next_clue_text v"
    "previousClues ?s' = previousClues s @ map the (filter truthy [currentClueText s])"
    using g Cons.prems(2) v
    by (cases "currentClueText s"; simp add: handleSubmitGuess_def applyVerdict_def)+
  have u: "submitAll (map GuessOk (v # vs)) s = submitAll (map GuessOk vs) ?s'"
    by simp
  from Cons.IH [of ?s'] s' Cons.prems(1) vs
  show ?case unfolding u by simp
qed

lemma submitAll_take:
  assumes "game s \<noteq> None" and "\<not> finished s" and "\<forall>v\<in>set vs. advancing v" and "k \<le> length vs"
  shows "currentClueText (submitAll (map GuessOk (take k vs)) s)
       = (currentClueText s # map next_clue_text vs) ! k"
proof -
  have "\<forall>v\<in>set (take k vs). advancing v"
    using assms(3) by (meson in_set_takeD)
  from advancing_run [OF assms(1,2) this]
  have "currentClueText (submitAll (map GuessOk (take k vs)) s)
      = last (currentClueText s # map next_clue_text (take k vs))" by simp
  also have "\<dots> = (currentClueText s # map next_clue_text (take k vs)) ! k"
    using assms(4) last_Cons_nth [of "currentClueText s" "map next_clue_text (take k vs)"]
    by simp
  also have "\<dots> = (currentClueText s # map next_clue_text vs) ! k"
    using assms(4) by (cases k) (simp_all)
  finally show ?thesis .
qed


lemma oneByOne_run:
  "inFlight p = [] \<Longrightarrow>
   run (oneByOne answers) p = \<lparr>cells = submitAll answers (cells p), inFlight = []\<rparr>"
proof (induction answers arbitrary: p)
  case Nil
  then show ?case by (simp add: oneByOne_def)
next
  case (Cons a answers)
  let ?q = "step (GuessSettles 0 a) (step SubmitGuess p)"
  have q: "?q = \<lparr>cells = fst (handleSubmitGuess a (cells p)), inFlight = []\<rparr>"
    using Cons.prems
    by (cases "submitGuess (cells p)")
       (auto simp add: handleSubmitGuess_split without_def)
  have "run (oneByOne (a # answers)) p = run (oneByOne answers) ?q"
    by (simp add: oneByOne_def)
  also have "\<dots> = \<lparr>cells = submitAll answers (cells ?q), inFlight = []\<rparr>"
    using q by (intro Cons.IH) simp
  finally show ?case using q by simp
qed

lemma load_settles_accepted:
  assumes "replacesSession p0 (LoadSettles n server)"
  shows "\<exists>d. game (cells (step (LoadSettles n server) p0)) = Some d
     \<and> currentClueIndex (cells (step (LoadSettles n server) p0)) = current_clue_index d
     \<and> currentClueText (cells (step (LoadSettles n server) p0)) = Some (current_clue_text d)
     \<and> previousClues (cells (step (LoadSettles n server) p0)) = []
     \<and> \<not> finished (cells (step (LoadSettles n server) p0))"
proof -
  from assms have n: "n < length (inFlight p0)"
    by (simp split: if_splits)
  with assms obtain options where o: "inFlight p0 ! n = PendingLoad options"
    "loadAccepts options server"
    by (cases "inFlight p0 ! n") simp_all
  from endLoad_accepted [OF o(2), of "cells p0"] n o(1) show ?thesis
    by simp
qed

lemma pageX_loaded:
  "replacesSession (step (StartLoad None) \<lparr>cells = initialState, inFlight = []\<rparr>)
     (LoadSettles 0 (\<lambda>n. FetchOk gameX))
   \<and> pageX = step (LoadSettles 0 (\<lambda>n. FetchOk gameX))
               (step (StartLoad None) \<lparr>cells = initialState, inFlight = []\<rparr>)
   \<and> inFlight pageX = []"
  by (simp add: pageX_def sessionX_def fetchGame_split loadAccepts_def fetchLoop_first
      without_def)

lemma double_submit:
  "run [SubmitGuess, SubmitGuess, GuessSettles 0 (GuessOk verdictNext),
        GuessSettles 0 (GuessOk verdictNext)] pageX =
     \<lparr>cells = sessionX\<lparr>statusMessage := Some ''Not quite.'', currentClueIndex := 1,
                 currentClueText := Some ''C2'', previousClues := [''C1'', ''C1'']\<rparr>,
      inFlight = []\<rparr>"
  by code_simp

lemma null_clue_text:
  "run (oneByOne [GuessOk verdictNoText, GuessOk verdictThird]) pageX =
     \<lparr>cells = sessionX\<lparr>statusMessage := Some ''Not quite.'', currentClueIndex := 2,
                 currentClueText := Some ''C3'', previousClues := [''C1'']\<rparr>,
      inFlight = []\<rparr>"
  by code_simp

subsection \<open>Rounding to a double\<close>

text \<open>
  The exponent is computed by halving and doubling. Rounding preserves order and sign, is
  symmetric about zero and leaves the integers below \<open>2 ^ 53\<close> as they are.
\<close>

lemma exponent_code [code]:
  "exponent x =
     (if 2 \<le> x then exponent (x / 2) + 1
      else if 0 < x \<and> x < 1 then exponent (x * 2) - 1
      else 0)"
proof -
  have a: "\<lfloor>log 2 x\<rfloor> = \<lfloor>log 2 (x / 2)\<rfloor> + 1" if "0 < x"
    using that by (simp add: log_divide)
  have b: "\<lfloor>log 2 x\<rfloor> = \<lfloor>log 2 (x * 2)\<rfloor> - 1" if "0 < x"
    using that by (simp add: log_mult)
  have c: "\<lfloor>log 2 x\<rfloor> = 0" if "1 \<le> x" "x < 2"
    using that by (simp add: floor_log_eq_powr_iff)
  show ?thesis
    using a b c by (auto simp add: exponent_def)
qed


lemma exponent_eqI:
  assumes "2 powi e \<le> x" and "x < 2 powi (e + 1)"
  shows "exponent x = e"
proof -
  have x: "0 < x"
    using assms(1) by (smt (verit) zero_less_power_int)
  have p: "(2::real) powr real_of_int k = 2 powi k" for k
    by (simp add: powr_real_of_int')
  have "2 powr real_of_int e \<le> x \<and> x < 2 powr (real_of_int e + 1)"
    using assms p [of e] p [of "e + 1"] by simp
  then have "\<lfloor>log 2 x\<rfloor> = e"
    using x by (simp add: floor_log_eq_powr_iff)
  then show ?thesis
    using x by (simp add: exponent_def)
qed
































subsection \<open>The error of rounding\<close>













subsection \<open>What a verdict does to the session\<close>

text \<open>
  Claim C1, amended. When a guess is submitted on a loaded, unfinished session and the
  verdict arrives: if the verdict has \<open>correct\<close> or \<open>finished\<close>, the session is finished,
  \<open>revealedTitle\<close> is the verdict's \<open>reveal_title\<close> and \<open>previousClues\<close> is as before;
  otherwise \<open>currentClueIndex\<close> and \<open>currentClueText\<close> become the verdict's
  \<open>next_clue_index\<close> and \<open>next_clue_text\<close>, and the clue text that was current before the
  submission is appended to \<open>previousClues\<close> when it is a non-empty string, while a
  \<open>null\<close> or empty clue text leaves \<open>previousClues\<close> as it was. The earlier page has no
  \<open>previousClues\<close>; its handler makes the same changes to the other cells.
\<close>

theorem verdict_transition:
  assumes "game s = Some g" and "\<not> finished s"
  shows "(if correct data \<or> GuessResponse.finished data
          then finished (fst (handleSubmitGuess (GuessOk data) s))
             \<and> revealedTitle (fst (handleSubmitGuess (GuessOk data) s)) = reveal_title data
             \<and> previousClues (fst (handleSubmitGuess (GuessOk data) s)) = previousClues s
          else currentClueIndex (fst (handleSubmitGuess (GuessOk data) s)) = next_clue_index data
             \<and> currentClueText (fst (handleSubmitGuess (GuessOk data) s)) = next_clue_text data
             \<and> previousClues (fst (handleSubmitGuess (GuessOk data) s)) =
                 (if truthy (currentClueText s)
                  then previousClues s @ [the (currentClueText s)] else previousClues s))
       \<and> (if correct data \<or> GuessResponse.finished data
          then finished (fst (handleSubmitGuess_page (GuessOk data) s))
             \<and> revealedTitle (fst (handleSubmitGuess_page (GuessOk data) s)) = reveal_title data
          else currentClueIndex (fst (handleSubmitGuess_page (GuessOk data) s))
                 = next_clue_index data
             \<and> currentClueText (fst (handleSubmitGuess_page (GuessOk data) s))
                 = next_clue_text data)"
  using assms
  by (cases "currentClueText s")
     (simp_all add: handleSubmitGuess_def applyVerdict_def handleSubmitGuess_page_def
       applyVerdict_page_def Let_def)

text \<open>
  The first scenario of the specification: \<open>gameX\<close> is loaded, the guess is wrong, and the
  page shows the second clue with the first one in the history.
\<close>

theorem verdict_transition_witness:
  "game sessionX = Some gameX \<and> \<not> finished sessionX
   \<and> \<not> (correct verdictNext \<or> GuessResponse.finished verdictNext)
   \<and> currentClueIndex (fst (handleSubmitGuess (GuessOk verdictNext) sessionX)) = 1
   \<and> currentClueText (fst (handleSubmitGuess (GuessOk verdictNext) sessionX)) = Some ''C2''
   \<and> previousClues (fst (handleSubmitGuess (GuessOk verdictNext) sessionX)) = [''C1'']
   \<and> currentClueIndex (fst (handleSubmitGuess_page (GuessOk verdictNext) sessionX)) = 1
   \<and> currentClueText (fst (handleSubmitGuess_page (GuessOk verdictNext) sessionX)) = Some ''C2''"
  using verdict_transition [of sessionX gameX verdictNext]
  by (simp add: sessionX_eq verdictNext_def)

text \<open>
  Claim C1 as written fails where the current clue text is the empty string: the game
  \<open>gameBlank\<close> is loaded, the guess is wrong, the session advances, and nothing is appended.
\<close>

theorem verdict_transition_counterexample:
  "game sessionBlank = Some gameBlank \<and> \<not> finished sessionBlank
   \<and> \<not> (correct verdictNext \<or> GuessResponse.finished verdictNext)
   \<and> currentClueText sessionBlank = Some []
   \<and> previousClues (fst (handleSubmitGuess (GuessOk verdictNext) sessionBlank)) = []
   \<and> previousClues (fst (handleSubmitGuess (GuessOk verdictNext) sessionBlank))
       \<noteq> previousClues sessionBlank @ [the (currentClueText sessionBlank)]"
  by (simp add: sessionBlank_eq verdictNext_def handleSubmitGuess_def applyVerdict_def)

text \<open>
  Claim C9. On a verdict with \<open>correct\<close> or \<open>finished\<close>, \<open>currentClueIndex\<close> stays,
  \<open>currentClueText\<close> becomes \<open>next_clue_text\<close> only when that is a non-empty string and
  stays otherwise, \<open>posterUrl\<close> becomes \<open>reveal_poster_url\<close> only when that is a non-empty
  string and stays otherwise, and \<open>revealedTitle\<close> becomes \<open>reveal_title\<close> whatever it is,
  \<open>null\<close> included.
\<close>

theorem finishing_verdict_frame:
  assumes "game s = Some g" and "\<not> finished s"
    and "correct data \<or> GuessResponse.finished data"
  shows "currentClueIndex (fst (handleSubmitGuess (GuessOk data) s)) = currentClueIndex s
    \<and> currentClueText (fst (handleSubmitGuess (GuessOk data) s)) =
        (if truthy (next_clue_text data) then next_clue_text data else currentClueText s)
    \<and> posterUrl (fst (handleSubmitGuess (GuessOk data) s)) =
        (if truthy (reveal_poster_url data) then reveal_poster_url data else posterUrl s)
    \<and> revealedTitle (fst (handleSubmitGuess (GuessOk data) s)) = reveal_title data"
  using assms by (simp add: handleSubmitGuess_def applyVerdict_def Let_def)

text \<open>
  \<open>verdictOut\<close> ends the game without a title: the clue text and the poster are replaced,
  the index stays at 0 although the verdict says 5, and the title is \<open>null\<close>.
\<close>

theorem finishing_verdict_frame_witness:
  "game sessionX = Some gameX \<and> \<not> finished sessionX
   \<and> (correct verdictOut \<or> GuessResponse.finished verdictOut)
   \<and> currentClueIndex (fst (handleSubmitGuess (GuessOk verdictOut) sessionX)) = 0
   \<and> currentClueText (fst (handleSubmitGuess (GuessOk verdictOut) sessionX))
       = Some ''It was Movie X.''
   \<and> posterUrl (fst (handleSubmitGuess (GuessOk verdictOut) sessionX)) = Some ''x-full.jpg''
   \<and> revealedTitle (fst (handleSubmitGuess (GuessOk verdictOut) sessionX)) = None"
  using finishing_verdict_frame [of sessionX gameX verdictOut]
  by (simp add: sessionX_eq verdictOut_def)

subsection \<open>Loading with an exclusion\<close>

text \<open>
  Claim C2. A load with \<open>requireDifferent\<close> and a non-empty \<open>excludeSlug\<close> issues at most 5
  fetches. If fetch number \<open>k\<close> (of the five) is the first whose game has another slug, the
  fetches before it having all given the excluded slug, that game is accepted after
  \<open>k + 1\<close> fetches and becomes the session. If all five fetches give the excluded slug, the
  load ends after exactly 5 fetches with the message that no different movie was found and
  the session as it was.
\<close>

theorem exclusion_load:
  assumes "requireDifferent_of options" and "excludeSlug_of options = Some e" and "e \<noteq> []"
  shows "snd (fetchGame options server s) \<le> 5
    \<and> (k < 5 \<and> (\<forall>j<k. \<exists>d'. server j = FetchOk d' \<and> movie_slug d' = e)
         \<and> server k = FetchOk d \<and> movie_slug d \<noteq> e \<longrightarrow>
       fetchGame options server s =
         (s\<lparr>game := Some d, currentClueIndex := current_clue_index d,
             currentClueText := Some (current_clue_text d), posterUrl := poster_url d,
             previousClues := [], guess := [], finished := False, revealedTitle := None,
             statusMessage := None, isLoadingGame := False\<rparr>, k + 1))
    \<and> ((\<forall>j<5. \<exists>d'. server j = FetchOk d' \<and> movie_slug d' = e) \<longrightarrow>
       fetchGame options server s =
         (s\<lparr>statusMessage := Some msgNoDifferent, isLoadingGame := False\<rparr>, 5))"
proof (intro conjI impI)
  show "snd (fetchGame options server s) \<le> 5"
    using assms(1) fetchLoop_bound [of 0 5 server True "excludeSlug_of options"]
    by (simp add: fetchGame_fetches)
next
  assume h: "k < 5 \<and> (\<forall>j<k. \<exists>d'. server j = FetchOk d' \<and> movie_slug d' = e)
         \<and> server k = FetchOk d \<and> movie_slug d \<noteq> e"
  then have "fetchLoop server True (Some e) 5 0 = (Accepted d, k + 1)"
    using assms(3) by (intro fetchLoop_accept) auto
  then show "fetchGame options server s =
         (s\<lparr>game := Some d, currentClueIndex := current_clue_index d,
             currentClueText := Some (current_clue_text d), posterUrl := poster_url d,
             previousClues := [], guess := [], finished := False, revealedTitle := None,
             statusMessage := None, isLoadingGame := False\<rparr>, k + 1)"
    using assms(1,2) by (simp add: fetchGame_unfold)
next
  assume "\<forall>j<5. \<exists>d'. server j = FetchOk d' \<and> movie_slug d' = e"
  then have "fetchLoop server True (Some e) 5 0 = (NoneFound, 5)"
    using assms(3) by (intro fetchLoop_exhaust) auto
  then show "fetchGame options server s =
         (s\<lparr>statusMessage := Some msgNoDifferent, isLoadingGame := False\<rparr>, 5)"
    using assms(1,2) by (simp add: fetchGame_unfold)
qed

text \<open>
  "New movie" on the session for film \<open>A\<close>: a collaborator that always has \<open>A\<close> is asked 5
  times and the session stays; one that has \<open>A\<close>, \<open>A\<close>, \<open>B\<close> is asked 3 times and \<open>B\<close> is
  accepted.
\<close>

theorem exclusion_load_witness:
  "requireDifferent_of (newMovieOptions sessionA)
   \<and> excludeSlug_of (newMovieOptions sessionA) = Some ''A''
   \<and> snd (fetchGame (newMovieOptions sessionA) alwaysA sessionA) = 5
   \<and> fst (fetchGame (newMovieOptions sessionA) alwaysA sessionA)
       = sessionA\<lparr>statusMessage := Some msgNoDifferent\<rparr>
   \<and> snd (fetchGame (newMovieOptions sessionA) twiceAThenB sessionA) = 3
   \<and> game (fst (fetchGame (newMovieOptions sessionA) twiceAThenB sessionA)) = Some gameB"
proof -
  have o: "requireDifferent_of (newMovieOptions sessionA)"
    "excludeSlug_of (newMovieOptions sessionA) = Some ''A''"
    by (simp_all add: newMovieOptions_sessionA)
  have e: "''A'' \<noteq> []" by simp
  have a: "\<forall>j<5. \<exists>d'. alwaysA j = FetchOk d' \<and> movie_slug d' = ''A''"
    by (simp add: alwaysA_def gameA_def)
  have b: "(2::nat) < 5 \<and> (\<forall>j<2. \<exists>d'. twiceAThenB j = FetchOk d' \<and> movie_slug d' = ''A'')
      \<and> twiceAThenB 2 = FetchOk gameB \<and> movie_slug gameB \<noteq> ''A''"
    by (simp add: twiceAThenB_def gameA_def gameB_def)
  from exclusion_load [OF o e, of alwaysA sessionA 0 gameA] a
  have r1: "fetchGame (newMovieOptions sessionA) alwaysA sessionA =
      (sessionA\<lparr>statusMessage := Some msgNoDifferent, isLoadingGame := False\<rparr>, 5)"
    by blast
  from exclusion_load [OF o e, of twiceAThenB sessionA 2 gameB] b
  have r2: "game (fst (fetchGame (newMovieOptions sessionA) twiceAThenB sessionA)) = Some gameB
      \<and> snd (fetchGame (newMovieOptions sessionA) twiceAThenB sessionA) = 2 + 1"
    by simp
  show ?thesis
    using o r1 r2 by (simp add: sessionA_eq)
qed

text \<open>
  Claim C4, amended. In a load with \<open>requireDifferent\<close> and a non-empty \<open>excludeSlug\<close>, a
  fetch that fails ends the load at once: if the fetches before fetch number \<open>k\<close> (of the
  five) all gave the excluded slug and fetch \<open>k\<close> fails, exactly \<open>k + 1\<close> fetches are
  issued, the message is that the new movie could not be loaded, and the session is as it
  was. If all five fetches give the excluded slug, the message is that no different movie
  was found and the session is as it was. Both endings only set the message.
\<close>

theorem failed_fetch_ends_load:
  assumes "requireDifferent_of options" and "excludeSlug_of options = Some e" and "e \<noteq> []"
  shows "(k < 5 \<and> (\<forall>j<k. \<exists>d'. server j = FetchOk d' \<and> movie_slug d' = e)
         \<and> server k = FetchFailed \<longrightarrow>
       fetchGame options server s =
         (s\<lparr>statusMessage := Some msgNewMovieFailed, isLoadingGame := False\<rparr>, k + 1))
    \<and> ((\<forall>j<5. \<exists>d'. server j = FetchOk d' \<and> movie_slug d' = e) \<longrightarrow>
       fetchGame options server s =
         (s\<lparr>statusMessage := Some msgNoDifferent, isLoadingGame := False\<rparr>, 5))"
proof (intro conjI impI)
  assume "k < 5 \<and> (\<forall>j<k. \<exists>d'. server j = FetchOk d' \<and> movie_slug d' = e)
         \<and> server k = FetchFailed"
  then have "fetchLoop server True (Some e) 5 0 = (Thrown, k + 1)"
    using assms(3) by (intro fetchLoop_throw) auto
  then show "fetchGame options server s =
         (s\<lparr>statusMessage := Some msgNewMovieFailed, isLoadingGame := False\<rparr>, k + 1)"
    using assms(1,2) by (simp add: fetchGame_unfold)
next
  assume "\<forall>j<5. \<exists>d'. server j = FetchOk d' \<and> movie_slug d' = e"
  then have "fetchLoop server True (Some e) 5 0 = (NoneFound, 5)"
    using assms(3) by (intro fetchLoop_exhaust) auto
  then show "fetchGame options server s =
         (s\<lparr>statusMessage := Some msgNoDifferent, isLoadingGame := False\<rparr>, 5)"
    using assms(1,2) by (simp add: fetchGame_unfold)
qed

text \<open>
  "New movie" on the session for film \<open>A\<close>: \<open>A\<close>, \<open>A\<close>, then a failure ends the load after
  3 fetches; \<open>A\<close> five times ends it after 5.
\<close>

theorem failed_fetch_ends_load_witness:
  "requireDifferent_of (newMovieOptions sessionA)
   \<and> excludeSlug_of (newMovieOptions sessionA) = Some ''A''
   \<and> alwaysA 0 = FetchOk gameA \<and> twiceAThenB 1 = FetchOk gameA \<and> movie_slug gameA = ''A''
   \<and> fetchGame (newMovieOptions sessionA) (\<lambda>n. if n < 2 then twiceAThenB n else FetchFailed)
        sessionA = (sessionA\<lparr>statusMessage := Some msgNewMovieFailed\<rparr>, 3)
   \<and> fetchGame (newMovieOptions sessionA) alwaysA sessionA
       = (sessionA\<lparr>statusMessage := Some msgNoDifferent\<rparr>, 5)"
proof -
  have o: "requireDifferent_of (newMovieOptions sessionA)"
    "excludeSlug_of (newMovieOptions sessionA) = Some ''A''"
    by (simp_all add: newMovieOptions_sessionA)
  have e: "''A'' \<noteq> []" by simp
  let ?srv = "\<lambda>n. if n < 2 then twiceAThenB n else FetchFailed"
  have a: "\<forall>j<5. \<exists>d'. alwaysA j = FetchOk d' \<and> movie_slug d' = ''A''"
    by (simp add: alwaysA_def gameA_def)
  have b: "(2::nat) < 5 \<and> (\<forall>j<2. \<exists>d'. ?srv j = FetchOk d' \<and> movie_slug d' = ''A'')
      \<and> ?srv 2 = FetchFailed"
    by (simp add: twiceAThenB_def gameA_def)
  from failed_fetch_ends_load [OF o e, of 0 alwaysA sessionA] a
  have r1: "fetchGame (newMovieOptions sessionA) alwaysA sessionA =
      (sessionA\<lparr>statusMessage := Some msgNoDifferent, isLoadingGame := False\<rparr>, 5)"
    by blast
  from failed_fetch_ends_load [OF o e, of 2 ?srv sessionA] b
  have r2: "fetchGame (newMovieOptions sessionA) ?srv sessionA =
      (sessionA\<lparr>statusMessage := Some msgNewMovieFailed, isLoadingGame := False\<rparr>, 2 + 1)"
    by blast
  have c: "alwaysA 0 = FetchOk gameA \<and> twiceAThenB 1 = FetchOk gameA \<and> movie_slug gameA = ''A''"
    by (simp add: alwaysA_def twiceAThenB_def gameA_def)
  show ?thesis
    using o c r1 r2 by (simp add: sessionA_eq)
qed

text \<open>
  Claim C4 as written fails on \<open>failThenB\<close>: the first fetch fails and the second would give
  film \<open>B\<close>, yet the load stops after one fetch, and its message is not the one for "no
  different movie found".
\<close>

theorem failed_fetch_ends_load_counterexample:
  "requireDifferent_of (newMovieOptions sessionA)
   \<and> excludeSlug_of (newMovieOptions sessionA) = Some ''A''
   \<and> failThenB 0 = FetchFailed \<and> failThenB 1 = FetchOk gameB \<and> movie_slug gameB \<noteq> ''A''
   \<and> snd (fetchGame (newMovieOptions sessionA) failThenB sessionA) = 1
   \<and> fst (fetchGame (newMovieOptions sessionA) failThenB sessionA)
       = sessionA\<lparr>statusMessage := Some msgNewMovieFailed\<rparr>
   \<and> statusMessage (fst (fetchGame (newMovieOptions sessionA) failThenB sessionA))
       \<noteq> Some msgNoDifferent"
  using newMovieOptions_sessionA
  by (simp add: newMovie_failThenB failThenB_def gameB_def msgNewMovieFailed_def
      msgNoDifferent_def)

text \<open>
  Claim C10. A load with \<open>requireDifferent: true\<close> whose \<open>excludeSlug\<close> is left out, \<open>null\<close>
  or the empty string accepts the game of its first fetch, whatever its slug, after that
  one fetch.
\<close>

theorem exclusion_skipped:
  assumes "options = Some \<lparr>requireDifferent = Given True, excludeSlug = x\<rparr>"
    and "x = Absent \<or> x = IsNull \<or> x = Given []"
    and "server 0 = FetchOk d"
  shows "fetchGame options server s =
     (s\<lparr>game := Some d, currentClueIndex := current_clue_index d,
         currentClueText := Some (current_clue_text d), posterUrl := poster_url d,
         previousClues := [], guess := [], finished := False, revealedTitle := None,
         statusMessage := None, isLoadingGame := False\<rparr>, 1)"
proof -
  have "\<not> truthy (excludeSlug_of options)"
    using assms(1,2) by auto
  then show ?thesis
    using assms(3) by (simp add: fetchGame_first)
qed

text \<open>
  "New movie" on a session whose slug is the empty string: the collaborator gives the same
  game again, and it is accepted after one fetch.
\<close>

theorem exclusion_skipped_witness:
  "newMovieOptions sessionNoSlug = Some \<lparr>requireDifferent = Given True, excludeSlug = Given []\<rparr>
   \<and> movie_slug gameNoSlug = []
   \<and> game sessionNoSlug = Some gameNoSlug
   \<and> fetchGame (newMovieOptions sessionNoSlug) (\<lambda>n. FetchOk gameNoSlug) sessionNoSlug
       = (sessionNoSlug, 1)"
proof -
  have o: "newMovieOptions sessionNoSlug
      = Some \<lparr>requireDifferent = Given True, excludeSlug = Given []\<rparr>"
    by (simp add: newMovieOptions_def sessionNoSlug_eq gameNoSlug_def)
  from exclusion_skipped [OF o, of "\<lambda>n. FetchOk gameNoSlug" gameNoSlug sessionNoSlug]
  have "fetchGame (newMovieOptions sessionNoSlug) (\<lambda>n. FetchOk gameNoSlug) sessionNoSlug =
     (sessionNoSlug\<lparr>game := Some gameNoSlug, currentClueIndex := current_clue_index gameNoSlug,
         currentClueText := Some (current_clue_text gameNoSlug),
         posterUrl := poster_url gameNoSlug,
         previousClues := [], guess := [], finished := False, revealedTitle := None,
         statusMessage := None, isLoadingGame := False\<rparr>, 1)"
    by simp
  moreover have "sessionNoSlug\<lparr>game := Some gameNoSlug,
         currentClueIndex := current_clue_index gameNoSlug,
         currentClueText := Some (current_clue_text gameNoSlug),
         posterUrl := poster_url gameNoSlug,
         previousClues := [], guess := [], finished := False, revealedTitle := None,
         statusMessage := None, isLoadingGame := False\<rparr> = sessionNoSlug"
    by (simp add: sessionNoSlug_eq) (simp add: gameNoSlug_def gameX_def)
  moreover have "movie_slug gameNoSlug = [] \<and> game sessionNoSlug = Some gameNoSlug"
    by (simp add: sessionNoSlug_eq gameNoSlug_def)
  ultimately show ?thesis
    using o by simp
qed

subsection \<open>Failures\<close>

text \<open>
  Claim C7. A load that ends without accepting a game (a fetch failed, or the five attempts
  of "New movie" all gave the excluded slug) leaves \<open>game\<close>, \<open>currentClueIndex\<close>,
  \<open>currentClueText\<close>, \<open>previousClues\<close>, \<open>finished\<close>, \<open>revealedTitle\<close>, \<open>posterUrl\<close> and the
  guess field as they were: the state differs from the one before only in \<open>statusMessage\<close>,
  which is one of the three failure messages, and in the loading flag, which is off again.
  A guess whose submission fails on a loaded, unfinished session changes only
  \<open>statusMessage\<close>, to the failure message, and the guess field, which is emptied; the
  earlier page does the same.
\<close>

theorem failures_keep_session:
  "(\<not> loadAccepts options server \<longrightarrow>
      fst (fetchGame options server s) =
        s\<lparr>statusMessage := statusMessage (fst (fetchGame options server s)),
           isLoadingGame := False\<rparr>
      \<and> statusMessage (fst (fetchGame options server s))
          \<in> {Some msgNoDifferent, Some msgNewMovieFailed, Some msgLoadFailed})
   \<and> (game s = Some g \<and> \<not> finished s \<longrightarrow>
      handleSubmitGuess GuessFailed s =
        (s\<lparr>statusMessage := Some msgGuessFailed, guess := []\<rparr>,
         Some (GuessRequest (movie_slug g) (guess s) (currentClueIndex s)))
      \<and> handleSubmitGuess_page GuessFailed s =
        (s\<lparr>statusMessage := Some msgGuessFailed, guess := []\<rparr>,
         Some (GuessRequest (movie_slug g) (guess s) (currentClueIndex s))))"
proof -
  have "fst (fetchGame options server s) =
        s\<lparr>statusMessage := statusMessage (fst (fetchGame options server s)),
           isLoadingGame := False\<rparr>
      \<and> statusMessage (fst (fetchGame options server s))
          \<in> {Some msgNoDifferent, Some msgNewMovieFailed, Some msgLoadFailed}"
    if "\<not> loadAccepts options server"
  proof -
    from fetchGame_not_accepted [OF that, of s] obtain m where
      "m \<in> {msgNoDifferent, msgNewMovieFailed, msgLoadFailed}"
      "fst (fetchGame options server s) = s\<lparr>statusMessage := Some m, isLoadingGame := False\<rparr>"
      by blast
    then show ?thesis by auto
  qed
  then show ?thesis
    by (simp add: handleSubmitGuess_def handleSubmitGuess_page_def)
qed

text \<open>
  "New movie" on the session for film \<open>A\<close> with a failing first fetch, and a guess
  \<open>Heat\<close> on \<open>sessionX\<close> whose submission fails.
\<close>

theorem failures_keep_session_witness:
  "\<not> loadAccepts (newMovieOptions sessionA) failThenB
   \<and> fst (fetchGame (newMovieOptions sessionA) failThenB sessionA)
       = sessionA\<lparr>statusMessage := Some msgNewMovieFailed\<rparr>
   \<and> game (sessionX\<lparr>guess := ''Heat''\<rparr>) = Some gameX
   \<and> \<not> finished (sessionX\<lparr>guess := ''Heat''\<rparr>)
   \<and> handleSubmitGuess GuessFailed (sessionX\<lparr>guess := ''Heat''\<rparr>)
       = (sessionX\<lparr>statusMessage := Some msgGuessFailed\<rparr>, Some (GuessRequest ''x'' ''Heat'' 0))"
proof -
  have g: "game (sessionX\<lparr>guess := ''Heat''\<rparr>) = Some gameX
      \<and> \<not> finished (sessionX\<lparr>guess := ''Heat''\<rparr>)"
    by (simp add: sessionX_eq)
  from failures_keep_session
    [of "newMovieOptions sessionA" failThenB sessionA gameA] failThenB_not_accepted
  have r1: "fst (fetchGame (newMovieOptions sessionA) failThenB sessionA) =
        sessionA\<lparr>statusMessage :=
                   statusMessage (fst (fetchGame (newMovieOptions sessionA) failThenB sessionA)),
           isLoadingGame := False\<rparr>"
    by blast
  from failures_keep_session
    [of None failThenB "sessionX\<lparr>guess := ''Heat''\<rparr>" gameX] g
  have r2: "handleSubmitGuess GuessFailed (sessionX\<lparr>guess := ''Heat''\<rparr>) =
        ((sessionX\<lparr>guess := ''Heat''\<rparr>)\<lparr>statusMessage := Some msgGuessFailed, guess := []\<rparr>,
         Some (GuessRequest (movie_slug gameX) (guess (sessionX\<lparr>guess := ''Heat''\<rparr>))
                 (currentClueIndex (sessionX\<lparr>guess := ''Heat''\<rparr>))))"
    by blast
  have m: "statusMessage (fst (fetchGame (newMovieOptions sessionA) failThenB sessionA))
      = Some msgNewMovieFailed"
    by (simp add: newMovie_failThenB)
  show ?thesis
    using failThenB_not_accepted g r1 r2 m by (simp add: sessionX_eq sessionA_eq gameX_def)
qed

subsection \<open>The finished session\<close>






subsection \<open>The blur of the poster\<close>





subsection \<open>The progress percentage\<close>





subsection \<open>The history of clues\<close>

text \<open>
  Claim C3, amended. Let \<open>p\<close> be the page right after a load has settled with a game
  accepted, with nothing in flight; its \<open>previousClues\<close> is empty. Let guesses be made one
  at a time, each answered (or failed) before the next is submitted. If the game was
  loaded at index 0 with a non-empty clue text and every advancing verdict names the next
  index and carries a non-empty clue text, then after any such run the length of
  \<open>previousClues\<close> equals \<open>currentClueIndex\<close>. After \<open>N\<close> consecutive advancing
  verdicts, when the clue text current before each of the \<open>N\<close> guesses is a non-empty
  string, \<open>previousClues\<close> has exactly \<open>N\<close> entries and its entry \<open>k\<close> is the clue text that
  was current after the first \<open>k\<close> guesses, that is, right before guess \<open>k + 1\<close>.
\<close>

theorem history_matches_progress:
  assumes "replacesSession p0 (LoadSettles n server)"
    and "p = step (LoadSettles n server) p0"
    and "inFlight p = []"
  shows "previousClues (cells p) = []
    \<and> (currentClueIndex (cells p) = 0 \<and> truthy (currentClueText (cells p))
         \<and> stepsByOne 0 answers \<longrightarrow>
         int (length (previousClues (cells (run (oneByOne answers) p))))
           = currentClueIndex (cells (run (oneByOne answers) p)))
    \<and> ((\<forall>v\<in>set vs. advancing v) \<and> truthy (currentClueText (cells p))
         \<and> (\<forall>v\<in>set (butlast vs). truthy (next_clue_text v)) \<longrightarrow>
         length (previousClues (cells (run (oneByOne (map GuessOk vs)) p))) = length vs
         \<and> (\<forall>k<length vs.
               Some (previousClues (cells (run (oneByOne (map GuessOk vs)) p)) ! k)
                 = currentClueText (cells (run (oneByOne (map GuessOk (take k vs))) p))))"
proof -
  define s where "s = cells p"
  from load_settles_accepted [OF assms(1)] assms(2) obtain d where
    d: "game s = Some d" "previousClues s = []" "\<not> finished s"
    unfolding s_def by auto
  have r: "cells (run (oneByOne as) p) = submitAll as s" for as
    using oneByOne_run [OF assms(3), of as] by (simp add: s_def)
  have inv: "int (length (previousClues (submitAll answers s)))
           = currentClueIndex (submitAll answers s)"
    if "currentClueIndex s = 0 \<and> truthy (currentClueText s) \<and> stepsByOne 0 answers"
    using that d by (intro history_invariant) simp_all
  have hist: "length (previousClues (submitAll (map GuessOk vs) s)) = length vs
         \<and> (\<forall>k<length vs.
               Some (previousClues (submitAll (map GuessOk vs) s) ! k)
                 = currentClueText (submitAll (map GuessOk (take k vs)) s))"
    if h: "(\<forall>v\<in>set vs. advancing v) \<and> truthy (currentClueText s)
         \<and> (\<forall>v\<in>set (butlast vs). truthy (next_clue_text v))"
  proof -
    let ?texts = "butlast (currentClueText s # map next_clue_text vs)"
    have texts: "?texts = (if vs = [] then [] else currentClueText s # map next_clue_text (butlast vs))"
      by (simp add: map_butlast)
    have all: "\<forall>x\<in>set ?texts. truthy x"
      using h unfolding texts by auto
    have len: "length ?texts = length vs" by simp
    from advancing_run [of s vs] d h
    have "previousClues (submitAll (map GuessOk vs) s) = map the (filter truthy ?texts)"
      by simp
    then have p: "previousClues (submitAll (map GuessOk vs) s) = map the ?texts"
      using filter_True [OF all] by simp
    have nth: "Some (previousClues (submitAll (map GuessOk vs) s) ! k)
                 = currentClueText (submitAll (map GuessOk (take k vs)) s)"
      if k: "k < length vs" for k
    proof -
      have "?texts ! k \<in> set ?texts"
        using k len by (metis nth_mem)
      with all have "truthy (?texts ! k)" by blast
      then obtain t where t: "?texts ! k = Some t" by (cases "?texts ! k") auto
      have "k < length ?texts"
        using k len by (simp only:)
      then have "?texts ! k = (currentClueText s # map next_clue_text vs) ! k"
        by (rule nth_butlast)
      also have "\<dots> = currentClueText (submitAll (map GuessOk (take k vs)) s)"
        using submitAll_take [of s vs k] d h k by simp
      finally have e: "?texts ! k = currentClueText (submitAll (map GuessOk (take k vs)) s)" .
      have "previousClues (submitAll (map GuessOk vs) s) ! k = the (?texts ! k)"
        unfolding p using k len by (simp only: nth_map)
      then have "previousClues (submitAll (map GuessOk vs) s) ! k = t"
        by (simp only: t option.sel)
      moreover from t e have "currentClueText (submitAll (map GuessOk (take k vs)) s) = Some t"
        by (simp only:)
      ultimately show ?thesis by (simp only:)
    qed
    from p len nth show ?thesis by simp
  qed
  from d(2) inv hist show ?thesis
    unfolding r s_def [symmetric] by blast
qed


text \<open>
  \<open>pageX\<close> is the page after the first load has settled with \<open>gameX\<close>. A wrong guess, a
  failed submission, another wrong guess and the right one, one at a time: two clues in the
  history, index 2.
\<close>

theorem history_matches_progress_witness:
  "replacesSession (step (StartLoad None) \<lparr>cells = initialState, inFlight = []\<rparr>)
     (LoadSettles 0 (\<lambda>n. FetchOk gameX))
   \<and> pageX = step (LoadSettles 0 (\<lambda>n. FetchOk gameX))
               (step (StartLoad None) \<lparr>cells = initialState, inFlight = []\<rparr>)
   \<and> inFlight pageX = []
   \<and> currentClueIndex (cells pageX) = 0 \<and> truthy (currentClueText (cells pageX))
   \<and> stepsByOne 0 [GuessOk verdictNext, GuessFailed, GuessOk verdictThird, GuessOk verdictWin]
   \<and> advancing verdictNext \<and> advancing verdictThird \<and> truthy (next_clue_text verdictNext)
   \<and> previousClues
        (cells (run (oneByOne
               [GuessOk verdictNext, GuessFailed, GuessOk verdictThird, GuessOk verdictWin])
           pageX)) = [''C1'', ''C2'']
   \<and> currentClueIndex
        (cells (run (oneByOne
               [GuessOk verdictNext, GuessFailed, GuessOk verdictThird, GuessOk verdictWin])
           pageX)) = 2
   \<and> previousClues (cells (run (oneByOne (map GuessOk [verdictNext, verdictThird])) pageX))
       = [''C1'', ''C2'']
   \<and> currentClueText
        (cells (run (oneByOne (map GuessOk (take 0 [verdictNext, verdictThird]))) pageX))
       = Some ''C1''
   \<and> currentClueText
        (cells (run (oneByOne (map GuessOk (take 1 [verdictNext, verdictThird]))) pageX))
       = Some ''C2''"
proof -
  let ?answers = "[GuessOk verdictNext, GuessFailed, GuessOk verdictThird, GuessOk verdictWin]"
  let ?vs = "[verdictNext, verdictThird]"
  note l = pageX_loaded
  have h: "currentClueIndex (cells pageX) = 0 \<and> truthy (currentClueText (cells pageX))
      \<and> stepsByOne 0 ?answers"
    by (simp add: pageX_def sessionX_eq verdictNext_def verdictThird_def verdictWin_def)
  have a: "(\<forall>v\<in>set ?vs. advancing v) \<and> truthy (currentClueText (cells pageX))
      \<and> (\<forall>v\<in>set (butlast ?vs). truthy (next_clue_text v))"
    by (simp add: pageX_def sessionX_eq advancing_def verdictNext_def verdictThird_def)
  from history_matches_progress
    [OF l [THEN conjunct1] l [THEN conjunct2, THEN conjunct1] l [THEN conjunct2, THEN conjunct2],
     of ?answers ?vs] h a
  have r: "int (length (previousClues (cells (run (oneByOne ?answers) pageX))))
           = currentClueIndex (cells (run (oneByOne ?answers) pageX))"
    "length (previousClues (cells (run (oneByOne (map GuessOk ?vs)) pageX))) = length ?vs"
    by blast+
  have e: "previousClues (cells (run (oneByOne ?answers) pageX)) = [''C1'', ''C2'']"
    "previousClues (cells (run (oneByOne (map GuessOk ?vs)) pageX)) = [''C1'', ''C2'']"
    "currentClueText (cells (run (oneByOne (map GuessOk (take 0 ?vs))) pageX)) = Some ''C1''"
    "currentClueText (cells (run (oneByOne (map GuessOk (take 1 ?vs))) pageX)) = Some ''C2''"
    by (simp_all add: oneByOne_run pageX_def sessionX_eq handleSubmitGuess_def applyVerdict_def
        verdictNext_def verdictThird_def verdictWin_def)
  from r(1) e(1) have i: "currentClueIndex (cells (run (oneByOne ?answers) pageX)) = 2"
    by simp
  from a have a': "advancing verdictNext \<and> advancing verdictThird
      \<and> truthy (next_clue_text verdictNext)"
    by simp
  from l h a' e i show ?thesis
    by blast
qed

text \<open>
  Claim C3 as written fails in three ways. On \<open>pageX\<close>, a verdict that advances with
  \<open>next_clue_text: null\<close> followed by one that advances to index 2: after two non-finishing
  guesses the history has one entry and the index is 2. \<open>sessionEight\<close>, loaded at index 1,
  has an empty history before any guess. And when the form is submitted twice on \<open>pageX\<close>
  before any answer, both requests carry index 0 and both verdicts name index 1: the first
  clue is appended twice while the index is 1.
\<close>

theorem history_matches_progress_counterexample:
  "advancing verdictNoText \<and> advancing verdictThird \<and> advancing verdictNext
   \<and> previousClues (cells (run (oneByOne [GuessOk verdictNoText, GuessOk verdictThird]) pageX))
       = [''C1'']
   \<and> currentClueIndex
        (cells (run (oneByOne [GuessOk verdictNoText, GuessOk verdictThird]) pageX)) = 2
   \<and> int (length (previousClues sessionEight)) \<noteq> currentClueIndex sessionEight
   \<and> next_clue_index verdictNext = currentClueIndex sessionX + 1
   \<and> previousClues
        (cells (run [SubmitGuess, SubmitGuess, GuessSettles 0 (GuessOk verdictNext),
                     GuessSettles 0 (GuessOk verdictNext)] pageX)) = [''C1'', ''C1'']
   \<and> currentClueIndex
        (cells (run [SubmitGuess, SubmitGuess, GuessSettles 0 (GuessOk verdictNext),
                     GuessSettles 0 (GuessOk verdictNext)] pageX)) = 1"
  unfolding double_submit null_clue_text
  by (simp add: sessionX_eq sessionEight_eq advancing_def verdictNoText_def verdictNext_def
      verdictThird_def)

end
